theory Spec2Isabelle
  imports Main "HOL-Library.Word"
begin

section \<open>The licenser package (licenser.go) as HOL definitions\<close>

text \<open>
  Conventions of the embedding.
  \<^item> A Go struct is a record with the fields of the source; \<open>int64\<close> and \<open>int\<close> are
    64-bit words, compared as signed numbers (\<open><s\<close>); a \<open>string\<close> and a \<open>[]byte\<close> are
    both lists of bytes, so the conversions between them are the identity.
  \<^item> A pointer that may be \<open>nil\<close> is an \<open>option\<close>. A Go function returning
    \<open>(T, error)\<close> returns \<open>error + T\<close> (\<open>Inl\<close> the error), one returning \<open>error\<close> returns
    \<open>error option\<close> (\<open>None\<close> is \<open>nil\<close>).
  \<^item> A function that can dereference a nil pointer returns an \<open>outcome\<close>: \<open>Panics\<close> or
    \<open>Returns\<close>.
  \<^item> The functions of the Go standard library (encoding/json, crypto/sha256, crypto/rsa,
    encoding/base64, encoding/pem, crypto/x509, os) are not code of this package. They
    are the fields of a record \<open>stdlib\<close> that every function of the package takes as its
    first argument; each reading of \<open>time.Now().Unix()\<close> is an argument of its own.
  \<^item> \<open>GenerateLicense\<close> and \<open>ValidateLicense\<close> receive a pointer to a record of the
    caller. They return the record as it stands after the call, then the result.
\<close>

subsection \<open>Data model\<close>

type_synonym int64 = "64 word"
type_synonym go_int = "64 word"
type_synonym bytes = string

datatype error =
    ErrInvalidPrivateKey
  | ErrInvalidPublicKey
  | ErrNoPublicKey
  | ErrLicenseExpired
  | ErrInvalidSignature
  | ErrSignatureVerification
  | ErrGeneratorModeRequired
  | ErrCustomerRequired
  | ErrAppIDRequired
  | ErrNoServicesAllowed
  | LibError string \<comment> \<open>an error value made by the standard library\<close>
  | Errorf string error \<comment> \<open>\<open>fmt.Errorf(msg + ": %w", err)\<close>\<close>

fun Error :: "error \<Rightarrow> string" where
  "Error ErrInvalidPrivateKey = ''invalid private key''"
| "Error ErrInvalidPublicKey = ''invalid public key''"
| "Error ErrNoPublicKey = ''no public key provided''"
| "Error ErrLicenseExpired = ''license has expired''"
| "Error ErrInvalidSignature = ''invalid signature''"
| "Error ErrSignatureVerification = ''signature verification failed''"
| "Error ErrGeneratorModeRequired = ''generator mode is required''"
| "Error ErrCustomerRequired = ''customer name is required''"
| "Error ErrAppIDRequired = ''application ID is required''"
| "Error ErrNoServicesAllowed = ''at least one service must be allowed''"
| "Error (LibError s) = s"
| "Error (Errorf msg err) = msg @ '': '' @ Error err"

datatype panic = NilPointerDereference

datatype 'a outcome = Panics panic | Returns 'a

definition DefaultKeySize :: go_int where
  "DefaultKeySize = 2048"

definition StatusActive :: string where
  "StatusActive = ''active''"

definition StatusExpired :: string where
  "StatusExpired = ''expired''"

record Service =
  ID :: string
  Name :: string
  Description :: string
  Metadata :: "string \<rightharpoonup> string"

record License =
  Customer :: string
  AppID :: string
  Services :: "Service list"
  Limits :: "string \<rightharpoonup> go_int"
  Features :: "string \<rightharpoonup> bool"
  IssuedAt :: int64
  ExpiresAt :: int64
  Metadata :: "string \<rightharpoonup> string"
  Version :: string
  Environment :: string

record SignedLicense =
  Data :: License
  Signature :: string
  KeyID :: string
  Algorithm :: string
  CreatedAt :: int64

record Config =
  PrivateKeyPath :: string
  PrivateKeyPEM :: string
  PublicKeyPath :: string
  PublicKeyPEM :: string
  KeySize :: go_int
  GeneratorMode :: bool

record ValidationResult =
  Valid :: bool
  Errors :: "string list"
  Warnings :: "string list"

text \<open>The key types of crypto/rsa: a private key embeds its public key.\<close>

record rsa_PublicKey =
  N :: int
  E :: int

record rsa_PrivateKey =
  PublicKey :: rsa_PublicKey
  D :: int
  Primes :: "int list"

record Manager =
  privateKey :: "rsa_PrivateKey option"
  publicKey :: "rsa_PublicKey option"
  config :: Config

subsection \<open>The standard library, as parameters\<close>

record pem_Block =
  Type :: string
  Bytes :: bytes

text \<open>\<open>x509.ParsePKIXPublicKey\<close> returns a key of any algorithm.\<close>

datatype pkix_key = RSAPublicKey rsa_PublicKey | OtherPublicKey string

type_synonym filesystem = "string \<rightharpoonup> bytes"

record stdlib =
  json_Marshal :: "License \<Rightarrow> error + bytes"
  sha256_Sum256 :: "bytes \<Rightarrow> bytes"
  rsa_SignPKCS1v15 :: "rsa_PrivateKey \<Rightarrow> bytes \<Rightarrow> error + bytes"
  rsa_VerifyPKCS1v15 :: "rsa_PublicKey \<Rightarrow> bytes \<Rightarrow> bytes \<Rightarrow> error option"
  rsa_GenerateKey :: "go_int \<Rightarrow> error + rsa_PrivateKey"
  base64_EncodeToString :: "bytes \<Rightarrow> string"
  base64_DecodeString :: "string \<Rightarrow> error + bytes"
  pem_Decode :: "bytes \<Rightarrow> pem_Block option"
  pem_EncodeToMemory :: "pem_Block \<Rightarrow> bytes"
  x509_ParsePKCS1PrivateKey :: "bytes \<Rightarrow> error + rsa_PrivateKey"
  x509_ParsePKIXPublicKey :: "bytes \<Rightarrow> error + pkix_key"
  x509_MarshalPKCS1PrivateKey :: "rsa_PrivateKey \<Rightarrow> bytes"
  x509_MarshalPKIXPublicKey :: "rsa_PublicKey \<Rightarrow> error + bytes"
  os_ReadFile :: "filesystem \<Rightarrow> string \<Rightarrow> error + bytes"
  os_WriteFile :: "filesystem \<Rightarrow> string \<Rightarrow> bytes \<Rightarrow> filesystem \<times> error option"

subsection \<open>Helper functions of the package\<close>

text \<open>
  \<open>rsa.SignPKCS1v15\<close> and \<open>rsa.VerifyPKCS1v15\<close> read the fields of the key they are given:
  on a nil key the call panics.
\<close>

definition signData :: "stdlib \<Rightarrow> Manager \<Rightarrow> bytes \<Rightarrow> (error + string) outcome" where
  "signData lib m data =
     (let hash = sha256_Sum256 lib data in
      case privateKey m of
        None \<Rightarrow> Panics NilPointerDereference
      | Some priv \<Rightarrow>
          (case rsa_SignPKCS1v15 lib priv hash of
             Inl err \<Rightarrow> Returns (Inl err)
           | Inr signature \<Rightarrow> Returns (Inr (base64_EncodeToString lib signature))))"

definition verifySignature :: "stdlib \<Rightarrow> Manager \<Rightarrow> bytes \<Rightarrow> string \<Rightarrow> error option outcome" where
  "verifySignature lib m data signatureStr =
     (case base64_DecodeString lib signatureStr of
        Inl err \<Rightarrow> Returns (Some ErrInvalidSignature)
      | Inr signature \<Rightarrow>
          (let hash = sha256_Sum256 lib data in
           case publicKey m of
             None \<Rightarrow> Panics NilPointerDereference
           | Some pub \<Rightarrow> Returns (rsa_VerifyPKCS1v15 lib pub hash signature)))"

definition parsePrivateKeyFromPEM :: "stdlib \<Rightarrow> string \<Rightarrow> error + rsa_PrivateKey" where
  "parsePrivateKeyFromPEM lib pemData =
     (case pem_Decode lib pemData of
        None \<Rightarrow> Inl ErrInvalidPrivateKey
      | Some block \<Rightarrow> x509_ParsePKCS1PrivateKey lib (Bytes block))"

definition parsePublicKeyFromPEM :: "stdlib \<Rightarrow> string \<Rightarrow> error + rsa_PublicKey" where
  "parsePublicKeyFromPEM lib pemData =
     (case pem_Decode lib pemData of
        None \<Rightarrow> Inl ErrInvalidPublicKey
      | Some block \<Rightarrow>
          (case x509_ParsePKIXPublicKey lib (Bytes block) of
             Inl err \<Rightarrow> Inl err
           | Inr pub \<Rightarrow>
               (case pub of
                  RSAPublicKey rsaPub \<Rightarrow> Inr rsaPub
                | OtherPublicKey _ \<Rightarrow> Inl ErrInvalidPublicKey)))"

definition loadPrivateKeyFromFile ::
  "stdlib \<Rightarrow> filesystem \<Rightarrow> string \<Rightarrow> error + rsa_PrivateKey" where
  "loadPrivateKeyFromFile lib fs filePath =
     (case os_ReadFile lib fs filePath of
        Inl err \<Rightarrow> Inl err
      | Inr data \<Rightarrow> parsePrivateKeyFromPEM lib data)"

definition loadPublicKeyFromFile ::
  "stdlib \<Rightarrow> filesystem \<Rightarrow> string \<Rightarrow> error + rsa_PublicKey" where
  "loadPublicKeyFromFile lib fs filePath =
     (case os_ReadFile lib fs filePath of
        Inl err \<Rightarrow> Inl err
      | Inr data \<Rightarrow> parsePublicKeyFromPEM lib data)"

subsection \<open>NewManager\<close>

definition NewManager :: "stdlib \<Rightarrow> filesystem \<Rightarrow> Config \<Rightarrow> error + Manager" where
  "NewManager lib fs cfg =
     (let m = \<lparr>privateKey = None, publicKey = None, config = cfg\<rparr>;
          m = (if KeySize cfg = 0
               then m\<lparr>config := (config m)\<lparr>KeySize := DefaultKeySize\<rparr>\<rparr> else m);
          generated =
            (if GeneratorMode cfg then
               (case (if PrivateKeyPEM cfg \<noteq> [] then
                        parsePrivateKeyFromPEM lib (PrivateKeyPEM cfg)
                      else if PrivateKeyPath cfg \<noteq> [] then
                        loadPrivateKeyFromFile lib fs (PrivateKeyPath cfg)
                      else rsa_GenerateKey lib (KeySize (config m))) of
                  Inl err \<Rightarrow> Inl (Errorf ''failed to setup private key'' err)
                | Inr priv \<Rightarrow>
                    Inr (m\<lparr>privateKey := Some priv, publicKey := Some (PublicKey priv)\<rparr>))
             else Inr m)
      in case generated of
           Inl err \<Rightarrow> Inl err
         | Inr m \<Rightarrow>
             (case (if PublicKeyPEM cfg \<noteq> [] then
                      (case parsePublicKeyFromPEM lib (PublicKeyPEM cfg) of
                         Inl err \<Rightarrow> Inl (Errorf ''failed to parse public key'' err)
                       | Inr pub \<Rightarrow> Inr (m\<lparr>publicKey := Some pub\<rparr>))
                    else if PublicKeyPath cfg \<noteq> [] then
                      (case loadPublicKeyFromFile lib fs (PublicKeyPath cfg) of
                         Inl err \<Rightarrow> Inl (Errorf ''failed to load public key'' err)
                       | Inr pub \<Rightarrow> Inr (m\<lparr>publicKey := Some pub\<rparr>))
                    else Inr m) of
                Inl err \<Rightarrow> Inl err
              | Inr m \<Rightarrow> if publicKey m = None then Inl ErrNoPublicKey else Inr m))"

subsection \<open>GenerateLicense and ValidateLicense\<close>

text \<open>
  \<open>GenerateLicense lib m now_issued now_created license\<close>: \<open>now_issued\<close> is the clock
  read for the stamp of \<open>IssuedAt\<close>, \<open>now_created\<close> the one read for \<open>CreatedAt\<close>. The first
  component of the result is the caller's record after the call.
\<close>

definition GenerateLicense ::
  "stdlib \<Rightarrow> Manager \<Rightarrow> int64 \<Rightarrow> int64 \<Rightarrow> License
     \<Rightarrow> License \<times> (error + SignedLicense) outcome" where
  "GenerateLicense lib m now_issued now_created license =
     (if \<not> GeneratorMode (config m) then (license, Returns (Inl ErrGeneratorModeRequired))
      else if Customer license = [] then (license, Returns (Inl ErrCustomerRequired))
      else if AppID license = [] then (license, Returns (Inl ErrAppIDRequired))
      else if length (Services license) = 0 then (license, Returns (Inl ErrNoServicesAllowed))
      else
        let license = (if IssuedAt license = 0
                       then license\<lparr>IssuedAt := now_issued\<rparr> else license)
        in case json_Marshal lib license of
             Inl err \<Rightarrow> (license, Returns (Inl (Errorf ''failed to marshal license'' err)))
           | Inr data \<Rightarrow>
               (case signData lib m data of
                  Panics p \<Rightarrow> (license, Panics p)
                | Returns (Inl err) \<Rightarrow>
                    (license, Returns (Inl (Errorf ''failed to sign license'' err)))
                | Returns (Inr signature) \<Rightarrow>
                    (license, Returns (Inr
                       \<lparr>Data = license, Signature = signature, KeyID = [],
                        Algorithm = ''RS256'', CreatedAt = now_created\<rparr>))))"

definition ValidateLicense ::
  "stdlib \<Rightarrow> Manager \<Rightarrow> int64 \<Rightarrow> SignedLicense
     \<Rightarrow> SignedLicense \<times> ValidationResult outcome" where
  "ValidateLicense lib m now signedLicense =
     (let result = \<lparr>Valid = True, Errors = [], Warnings = []\<rparr> in
      case json_Marshal lib (Data signedLicense) of
        Inl err \<Rightarrow>
          (signedLicense,
           Returns (result\<lparr>Valid := False,
                           Errors := Errors result @ [''failed to marshal license data'']\<rparr>))
      | Inr data \<Rightarrow>
          (case verifySignature lib m data (Signature signedLicense) of
             Panics p \<Rightarrow> (signedLicense, Panics p)
           | Returns err \<Rightarrow>
               (let result =
                      (if err \<noteq> None
                       then result\<lparr>Valid := False,
                              Errors := Errors result @ [''signature verification failed'']\<rparr>
                       else result);
                    result =
                      (if 0 <s ExpiresAt (Data signedLicense)
                          \<and> ExpiresAt (Data signedLicense) <s now
                       then result\<lparr>Valid := False,
                              Errors := Errors result @ [''license has expired'']\<rparr>
                       else result);
                    result =
                      (if Customer (Data signedLicense) = []
                       then result\<lparr>Valid := False,
                              Errors := Errors result @ [''customer is required'']\<rparr>
                       else result);
                    result =
                      (if AppID (Data signedLicense) = []
                       then result\<lparr>Valid := False,
                              Errors := Errors result @ [''app ID is required'']\<rparr>
                       else result);
                    result =
                      (if length (Services (Data signedLicense)) = 0
                       then result\<lparr>Valid := False,
                              Errors := Errors result @ [''at least one service is required'']\<rparr>
                       else result)
                in (signedLicense, Returns result))))"

subsection \<open>Expiry queries\<close>

definition IsExpired :: "Manager \<Rightarrow> int64 \<Rightarrow> License \<Rightarrow> bool" where
  "IsExpired m now license \<longleftrightarrow> 0 <s ExpiresAt license \<and> ExpiresAt license <s now"

definition GetLicenseStatus :: "int64 \<Rightarrow> License \<Rightarrow> string" where
  "GetLicenseStatus now license =
     (if ExpiresAt license = 0 then StatusActive
      else if ExpiresAt license <s now then StatusExpired
      else StatusActive)"

subsection \<open>Key export\<close>

text \<open>
  \<open>x509.MarshalPKCS1PrivateKey\<close> and \<open>x509.MarshalPKIXPublicKey\<close> read the fields of the
  key behind the pointer: on a nil key the call panics.
\<close>

definition ExportPrivateKey :: "stdlib \<Rightarrow> Manager \<Rightarrow> string outcome" where
  "ExportPrivateKey lib m =
     (case privateKey m of
        None \<Rightarrow> Panics NilPointerDereference
      | Some priv \<Rightarrow>
          (let privateKeyBytes = x509_MarshalPKCS1PrivateKey lib priv;
               privateKeyPEM = pem_EncodeToMemory lib
                 \<lparr>Type = ''RSA PRIVATE KEY'', Bytes = privateKeyBytes\<rparr>
           in Returns privateKeyPEM))"

definition ExportPublicKey :: "stdlib \<Rightarrow> Manager \<Rightarrow> string outcome" where
  "ExportPublicKey lib m =
     (case publicKey m of
        None \<Rightarrow> Panics NilPointerDereference
      | Some pub \<Rightarrow>
          (case x509_MarshalPKIXPublicKey lib pub of
             Inl err \<Rightarrow> Returns []
           | Inr publicKeyBytes \<Rightarrow>
               Returns (pem_EncodeToMemory lib
                 \<lparr>Type = ''PUBLIC KEY'', Bytes = publicKeyBytes\<rparr>)))"

definition ExportKeys :: "stdlib \<Rightarrow> Manager \<Rightarrow> (error + string \<times> string) outcome" where
  "ExportKeys lib m =
     (case ExportPrivateKey lib m of
        Panics p \<Rightarrow> Panics p
      | Returns private_pem \<Rightarrow>
          (case ExportPublicKey lib m of
             Panics p \<Rightarrow> Panics p
           | Returns public_pem \<Rightarrow> Returns (Inr (private_pem, public_pem))))"

text \<open>\<open>SaveKeys\<close> returns the file system after the call, then the result.\<close>

definition SaveKeys ::
  "stdlib \<Rightarrow> Manager \<Rightarrow> filesystem \<Rightarrow> string \<Rightarrow> string
     \<Rightarrow> filesystem \<times> error option outcome" where
  "SaveKeys lib m fs privateKeyPath publicKeyPath =
     (case ExportPrivateKey lib m of
        Panics p \<Rightarrow> (fs, Panics p)
      | Returns privateKeyPEM \<Rightarrow>
          (case os_WriteFile lib fs privateKeyPath privateKeyPEM of
             (fs, Some err) \<Rightarrow> (fs, Returns (Some (Errorf ''failed to save private key'' err)))
           | (fs, None) \<Rightarrow>
               (case ExportPublicKey lib m of
                  Panics p \<Rightarrow> (fs, Panics p)
                | Returns publicKeyPEM \<Rightarrow>
                    (case os_WriteFile lib fs publicKeyPath publicKeyPEM of
                       (fs, Some err) \<Rightarrow>
                         (fs, Returns (Some (Errorf ''failed to save public key'' err)))
                     | (fs, None) \<Rightarrow> (fs, Returns None)))))"

subsection \<open>The key resolution of the specification\<close>

text \<open>
  These two definitions follow the words of the specification (section 4.1), not the
  code; \<open>NewManager\<close> is compared with them below.
  (a) if PEM text for the private key is supplied, parse it; else (b) if a private-key
  file path is supplied, read and parse it; else (c) generate a fresh key pair at the
  configured size (2048 bits if unspecified).
\<close>

definition private_key_source :: "stdlib \<Rightarrow> filesystem \<Rightarrow> Config \<Rightarrow> error + rsa_PrivateKey" where
  "private_key_source lib fs cfg =
     (if PrivateKeyPEM cfg \<noteq> [] then parsePrivateKeyFromPEM lib (PrivateKeyPEM cfg)
      else if PrivateKeyPath cfg \<noteq> [] then loadPrivateKeyFromFile lib fs (PrivateKeyPath cfg)
      else rsa_GenerateKey lib (if KeySize cfg = 0 then 2048 else KeySize cfg))"

text \<open>
  The separately supplied public key: \<open>None\<close> when neither PEM text nor a file path for
  a public key is supplied, else the result of parsing or loading it.
\<close>

definition public_key_override ::
  "stdlib \<Rightarrow> filesystem \<Rightarrow> Config \<Rightarrow> (error + rsa_PublicKey) option" where
  "public_key_override lib fs cfg =
     (if PublicKeyPEM cfg \<noteq> [] then Some (parsePublicKeyFromPEM lib (PublicKeyPEM cfg))
      else if PublicKeyPath cfg \<noteq> [] then Some (loadPublicKeyFromFile lib fs (PublicKeyPath cfg))
      else None)"

text \<open>
  The error list of the specification (section 4.4): the five checks in their order,
  each adding its own error, where \<open>signature_ok\<close> is the outcome of the first check.
\<close>

definition validation_errors :: "bool \<Rightarrow> int64 \<Rightarrow> License \<Rightarrow> string list" where
  "validation_errors signature_ok now l =
     (if signature_ok then [] else [''signature verification failed'']) @
     (if 0 <s ExpiresAt l \<and> ExpiresAt l <s now then [''license has expired''] else []) @
     (if Customer l = [] then [''customer is required''] else []) @
     (if AppID l = [] then [''app ID is required''] else []) @
     (if Services l = [] then [''at least one service is required''] else [])"

subsection \<open>A small standard library, to run the definitions on concrete inputs\<close>

text \<open>
  The theorems below hold for every \<open>stdlib\<close>. To evaluate the package's functions on
  concrete inputs, \<open>demo_lib\<close> gives each library function a small executable stand-in:
  the serialization joins three fields, the digest is the first 32 bytes, a signature
  is the digest followed by \<open>D\<close> marks and is accepted by the public key whose \<open>E\<close> equals
  that \<open>D\<close>, base64 text carries a fixed prefix, a PEM block is text that begins with
  the BEGIN marker, and the key parsers know four key encodings.
\<close>

definition demo_pub :: rsa_PublicKey where
  "demo_pub = \<lparr>N = 33, E = 3\<rparr>"

definition demo_priv :: rsa_PrivateKey where
  "demo_priv = \<lparr>PublicKey = demo_pub, D = 3, Primes = [3, 11]\<rparr>"

definition demo_other_pub :: rsa_PublicKey where
  "demo_other_pub = \<lparr>N = 35, E = 5\<rparr>"

definition demo_lib :: stdlib where
  "demo_lib = \<lparr>
     json_Marshal = (\<lambda>l. Inr (Customer l @ '','' @ AppID l @ '','' @ concat (map ID (Services l)))),
     sha256_Sum256 = take 32,
     rsa_SignPKCS1v15 = (\<lambda>priv h. Inr (h @ replicate (nat (D priv)) CHR ''#'')),
     rsa_VerifyPKCS1v15 = (\<lambda>pub h s.
        if s = h @ replicate (nat (E pub)) CHR ''#'' then None
        else Some (LibError ''crypto/rsa: verification error'')),
     rsa_GenerateKey = (\<lambda>bits.
        Inr \<lparr>PublicKey = \<lparr>N = uint bits, E = 3\<rparr>, D = 3, Primes = []\<rparr>),
     base64_EncodeToString = (\<lambda>b. ''b64:'' @ b),
     base64_DecodeString = (\<lambda>s.
        if take 4 s = ''b64:'' then Inr (drop 4 s)
        else Inl (LibError ''illegal base64 data'')),
     pem_Decode = (\<lambda>s.
        if take 11 s = ''-----BEGIN '' then Some \<lparr>Type = ''KEY'', Bytes = drop 11 s\<rparr>
        else None),
     pem_EncodeToMemory = (\<lambda>b. ''-----BEGIN '' @ Bytes b),
     x509_ParsePKCS1PrivateKey = (\<lambda>b.
        if b = ''rsa-private'' then Inr demo_priv
        else Inl (LibError ''x509: failed to parse private key'')),
     x509_ParsePKIXPublicKey = (\<lambda>b.
        if b = ''rsa-public'' then Inr (RSAPublicKey demo_pub)
        else if b = ''rsa-public-2'' then Inr (RSAPublicKey demo_other_pub)
        else if b = ''ecdsa-public'' then Inr (OtherPublicKey ''ecdsa'')
        else Inl (LibError ''x509: failed to parse public key'')),
     x509_MarshalPKCS1PrivateKey = (\<lambda>k. ''rsa-private''),
     x509_MarshalPKIXPublicKey = (\<lambda>k. Inr ''rsa-public''),
     os_ReadFile = (\<lambda>fs p.
        case fs p of None \<Rightarrow> Inl (LibError ''no such file or directory'') | Some d \<Rightarrow> Inr d),
     os_WriteFile = (\<lambda>fs p d. (fs(p \<mapsto> d), None))\<rparr>"

definition demo_config :: Config where
  "demo_config = \<lparr>PrivateKeyPath = [], PrivateKeyPEM = [], PublicKeyPath = [],
     PublicKeyPEM = [], KeySize = 0, GeneratorMode = False\<rparr>"

text \<open>A generator-mode Manager holding the pair \<open>demo_priv\<close>, \<open>demo_pub\<close>.\<close>

definition demo_generator :: Manager where
  "demo_generator = \<lparr>privateKey = Some demo_priv, publicKey = Some demo_pub,
     config = demo_config\<lparr>PrivateKeyPEM := ''-----BEGIN rsa-private'', GeneratorMode := True\<rparr>\<rparr>"

text \<open>A validator-only Manager: a public key and no private key.\<close>

definition demo_validator :: Manager where
  "demo_validator = \<lparr>privateKey = None, publicKey = Some demo_pub,
     config = demo_config\<lparr>PublicKeyPEM := ''-----BEGIN rsa-public'', KeySize := 2048\<rparr>\<rparr>"

definition demo_service :: Service where
  "demo_service = \<lparr>ID = ''web-api'', Name = ''Web API'', Description = [],
     Metadata = Map.empty\<rparr>"

definition demo_license :: License where
  "demo_license = \<lparr>Customer = ''Acme'', AppID = ''acme-app'', Services = [demo_service],
     Limits = Map.empty, Features = Map.empty, IssuedAt = 0, ExpiresAt = 0,
     Metadata = Map.empty, Version = [], Environment = []\<rparr>"

text \<open>
  Signed licenses for the validator: one with a forged signature, no customer and an
  expiry of 5; two copies of \<open>demo_license\<close>, the first with a signature that is not
  base64 text, the second with a well-formed signature of other content; one whose
  expiry is negative.
\<close>

definition demo_tampered :: SignedLicense where
  "demo_tampered = \<lparr>Data = demo_license\<lparr>Customer := [], ExpiresAt := 5\<rparr>,
     Signature = ''forged'', KeyID = [], Algorithm = ''RS256'', CreatedAt = 1\<rparr>"

definition demo_undecodable :: SignedLicense where
  "demo_undecodable = \<lparr>Data = demo_license, Signature = ''not base64'', KeyID = [],
     Algorithm = ''RS256'', CreatedAt = 1\<rparr>"

definition demo_mismatch :: SignedLicense where
  "demo_mismatch = \<lparr>Data = demo_license, Signature = ''b64:Acme,other-app,web-api###'',
     KeyID = [], Algorithm = ''RS256'', CreatedAt = 1\<rparr>"

definition demo_negative :: SignedLicense where
  "demo_negative = \<lparr>Data = demo_license\<lparr>ExpiresAt := - 1\<rparr>,
     Signature = ''b64:Acme,acme-app,web-api###'', KeyID = [], Algorithm = ''RS256'',
     CreatedAt = 1\<rparr>"

text \<open>
  Licenses for the generator: \<open>demo_signed\<close> is what it returns for \<open>demo_license\<close> at
  the clock readings 1000 and 1001; \<open>demo_expired_license\<close> expires at 5 and
  \<open>demo_expired_signed\<close> is what the generator returns for it at clock reading 10.
\<close>

definition demo_expired_license :: License where
  "demo_expired_license = demo_license\<lparr>IssuedAt := 3, ExpiresAt := 5\<rparr>"

definition demo_expired_signed :: SignedLicense where
  "demo_expired_signed = \<lparr>Data = demo_expired_license,
     Signature = ''b64:Acme,acme-app,web-api###'', KeyID = [], Algorithm = ''RS256'',
     CreatedAt = 10\<rparr>"

definition demo_signed :: SignedLicense where
  "demo_signed = \<lparr>Data = demo_license\<lparr>IssuedAt := 1000\<rparr>,
     Signature = ''b64:Acme,acme-app,web-api###'', KeyID = [], Algorithm = ''RS256'',
     CreatedAt = 1001\<rparr>"

section \<open>Properties\<close>

lemmas demo_defs = demo_lib_def demo_generator_def demo_validator_def demo_config_def
  demo_license_def demo_service_def demo_priv_def demo_pub_def demo_other_pub_def

lemma replicate_3: "replicate 3 c = [c, c, c]"
  by (simp add: numeral_3_eq_3)

subsection \<open>ValidateLicense in closed form\<close>

lemma verifySignature_Returns:
  "publicKey m = Some pub \<Longrightarrow> \<exists>err. verifySignature lib m data s = Returns err"
  by (simp add: verifySignature_def split: sum.split)

lemma ValidateLicense_marshal_error:
  assumes "json_Marshal lib (Data sl) = Inl e"
  shows "ValidateLicense lib m now sl =
           (sl, Returns \<lparr>Valid = False, Errors = [''failed to marshal license data''],
                         Warnings = []\<rparr>)"
  using assms by (simp add: ValidateLicense_def)

lemma ValidateLicense_eq:
  assumes "json_Marshal lib (Data sl) = Inr data"
    and "verifySignature lib m data (Signature sl) = Returns err"
  shows "ValidateLicense lib m now sl =
           (sl, Returns \<lparr>Valid = (validation_errors (err = None) now (Data sl) = []),
                         Errors = validation_errors (err = None) now (Data sl),
                         Warnings = []\<rparr>)"
  using assms by (simp add: ValidateLicense_def validation_errors_def Let_def)

subsection \<open>Validation\<close>

text \<open>
  C2. On a Manager that holds a public key, \<open>ValidateLicense\<close> returns a result for
  every signed license; the result is valid exactly when its error list is empty, and
  its warning list is empty. When the license data serializes (\<open>json.Marshal\<close> returns
  no error), the error list is the concatenation, in the order signature, expiry,
  customer, app ID, services, of one error string for each check that fails: every
  check contributes whatever the earlier ones found.
\<close>

theorem ValidateLicense_accumulates:
  assumes "publicKey m = Some pub"
  shows "\<exists>r. snd (ValidateLicense lib m now sl) = Returns r \<and>
           (Valid r \<longleftrightarrow> Errors r = []) \<and> Warnings r = [] \<and>
           (\<forall>data. json_Marshal lib (Data sl) = Inr data \<longrightarrow>
              Errors r =
                (if verifySignature lib m data (Signature sl) = Returns None then []
                 else [''signature verification failed'']) @
                (if 0 <s ExpiresAt (Data sl) \<and> ExpiresAt (Data sl) <s now
                 then [''license has expired''] else []) @
                (if Customer (Data sl) = [] then [''customer is required''] else []) @
                (if AppID (Data sl) = [] then [''app ID is required''] else []) @
                (if Services (Data sl) = []
                 then [''at least one service is required''] else []))"
proof (cases "json_Marshal lib (Data sl)")
  case (Inl e)
  then show ?thesis
    by (simp add: ValidateLicense_marshal_error)
next
  case (Inr data)
  obtain err where v: "verifySignature lib m data (Signature sl) = Returns err"
    using verifySignature_Returns [OF assms] by blast
  show ?thesis
    unfolding ValidateLicense_eq [OF Inr v]
    using Inr v by (simp add: validation_errors_def)
qed

theorem ValidateLicense_accumulates_witness:
  "publicKey demo_validator = Some demo_pub \<and>
   json_Marshal demo_lib (Data demo_tampered) = Inr '',acme-app,web-api'' \<and>
   snd (ValidateLicense demo_lib demo_validator 10 demo_tampered) =
     Returns \<lparr>Valid = False,
       Errors = [''signature verification failed'', ''license has expired'',
                 ''customer is required''],
       Warnings = []\<rparr>"
proof -
  have a: "json_Marshal demo_lib (Data demo_tampered) = Inr '',acme-app,web-api''"
    by (simp add: demo_defs demo_tampered_def)
  have b: "publicKey demo_validator = Some demo_pub"
    by (simp add: demo_defs)
  have v: "verifySignature demo_lib demo_validator '',acme-app,web-api''
             (Signature demo_tampered) \<noteq> Returns None"
    by (simp add: verifySignature_def demo_defs demo_tampered_def)
  have e: "0 <s ExpiresAt (Data demo_tampered) \<and> ExpiresAt (Data demo_tampered) <s 10"
    by (simp add: demo_tampered_def word_sless_alt)
  have c: "Customer (Data demo_tampered) = [] \<and> AppID (Data demo_tampered) \<noteq> []
           \<and> Services (Data demo_tampered) \<noteq> []"
    by (simp add: demo_tampered_def demo_defs)
  from ValidateLicense_accumulates [OF b, of demo_lib 10 demo_tampered] v e c a b
  show ?thesis
    by auto
qed

text \<open>
  C8. Two signed licenses with the same data whose signatures both fail verification,
  for whatever reason (text that does not decode, or a decoded signature that the key
  rejects), get the same validation result: it is invalid, and its error list begins
  with the one string \<open>signature verification failed\<close>, which occurs nowhere else in it.
\<close>

theorem signature_failure_uniform:
  assumes "json_Marshal lib (Data sl) = Inr data"
    and "verifySignature lib m data (Signature sl) = Returns (Some e)"
    and "Data sl' = Data sl"
    and "verifySignature lib m data (Signature sl') = Returns (Some e')"
  shows "\<exists>r. snd (ValidateLicense lib m now sl) = Returns r \<and>
             snd (ValidateLicense lib m now sl') = Returns r \<and> \<not> Valid r \<and>
             (\<exists>rest. Errors r = ''signature verification failed'' # rest \<and>
                     ''signature verification failed'' \<notin> set rest)"
proof -
  have m': "json_Marshal lib (Data sl') = Inr data"
    using assms(1,3) by simp
  show ?thesis
    unfolding ValidateLicense_eq [OF assms(1,2)] ValidateLicense_eq [OF m' assms(4)]
    by (simp add: assms(3) validation_errors_def)
qed

theorem signature_failure_uniform_witness:
  "json_Marshal demo_lib (Data demo_undecodable) = Inr ''Acme,acme-app,web-api'' \<and>
   base64_DecodeString demo_lib (Signature demo_undecodable)
     = Inl (LibError ''illegal base64 data'') \<and>
   verifySignature demo_lib demo_validator ''Acme,acme-app,web-api''
     (Signature demo_undecodable) = Returns (Some ErrInvalidSignature) \<and>
   Data demo_mismatch = Data demo_undecodable \<and>
   verifySignature demo_lib demo_validator ''Acme,acme-app,web-api''
     (Signature demo_mismatch) = Returns (Some (LibError ''crypto/rsa: verification error'')) \<and>
   snd (ValidateLicense demo_lib demo_validator 10 demo_undecodable) =
     Returns \<lparr>Valid = False, Errors = [''signature verification failed''], Warnings = []\<rparr> \<and>
   snd (ValidateLicense demo_lib demo_validator 10 demo_mismatch) =
     Returns \<lparr>Valid = False, Errors = [''signature verification failed''], Warnings = []\<rparr>"
proof -
  have a: "json_Marshal demo_lib (Data demo_undecodable) = Inr ''Acme,acme-app,web-api''"
    by (simp add: demo_defs demo_undecodable_def)
  have b: "verifySignature demo_lib demo_validator ''Acme,acme-app,web-api''
     (Signature demo_undecodable) = Returns (Some ErrInvalidSignature)"
    by (simp add: verifySignature_def demo_defs demo_undecodable_def)
  have c: "Data demo_mismatch = Data demo_undecodable"
    by (simp add: demo_mismatch_def demo_undecodable_def)
  have d: "verifySignature demo_lib demo_validator ''Acme,acme-app,web-api''
     (Signature demo_mismatch) = Returns (Some (LibError ''crypto/rsa: verification error''))"
    by (simp add: verifySignature_def demo_defs demo_mismatch_def)
  have e: "base64_DecodeString demo_lib (Signature demo_undecodable)
     = Inl (LibError ''illegal base64 data'')"
    by (simp add: demo_defs demo_undecodable_def)
  have f: "snd (ValidateLicense demo_lib demo_validator 10 demo_undecodable) =
     Returns \<lparr>Valid = False, Errors = [''signature verification failed''], Warnings = []\<rparr>"
    unfolding ValidateLicense_eq [OF a b]
    by (simp add: validation_errors_def demo_undecodable_def demo_defs)
  show ?thesis
    using signature_failure_uniform [OF a b c d, of 10] a b c d e f by auto
qed

subsection \<open>Expiry\<close>

text \<open>
  C4. \<open>IsExpired\<close> holds exactly when \<open>ExpiresAt\<close> is positive and the current time is
  strictly greater than it (both read as signed 64-bit numbers), and \<open>ValidateLicense\<close>
  (on a license that serializes, by a Manager with a public key) lists
  \<open>license has expired\<close> under exactly the same condition. An \<open>ExpiresAt\<close> of 0 is
  never expired, whatever the time, and an \<open>ExpiresAt\<close> equal to the current time is
  not expired.
\<close>

theorem expired_iff:
  "(IsExpired m now lic \<longleftrightarrow> 0 < sint (ExpiresAt lic) \<and> sint (ExpiresAt lic) < sint now) \<and>
   (json_Marshal lib (Data sl) = Inr data \<and> publicKey m = Some pub \<longrightarrow>
      (\<exists>r. snd (ValidateLicense lib m now sl) = Returns r \<and>
           (''license has expired'' \<in> set (Errors r) \<longleftrightarrow>
              0 < sint (ExpiresAt (Data sl)) \<and> sint (ExpiresAt (Data sl)) < sint now))) \<and>
   (ExpiresAt lic = 0 \<longrightarrow> \<not> IsExpired m now lic) \<and>
   (ExpiresAt lic = now \<longrightarrow> \<not> IsExpired m now lic)"
proof -
  have 1: "IsExpired m now lic \<longleftrightarrow> 0 < sint (ExpiresAt lic) \<and> sint (ExpiresAt lic) < sint now"
    by (simp add: IsExpired_def word_sless_alt)
  have 2: "\<exists>r. snd (ValidateLicense lib m now sl) = Returns r \<and>
           (''license has expired'' \<in> set (Errors r) \<longleftrightarrow>
              0 < sint (ExpiresAt (Data sl)) \<and> sint (ExpiresAt (Data sl)) < sint now)"
    if a: "json_Marshal lib (Data sl) = Inr data" and b: "publicKey m = Some pub"
  proof -
    obtain err where v: "verifySignature lib m data (Signature sl) = Returns err"
      using verifySignature_Returns [OF b] by blast
    show ?thesis
      unfolding ValidateLicense_eq [OF a v]
      by (simp add: validation_errors_def word_sless_alt)
  qed
  have 3: "ExpiresAt lic = 0 \<longrightarrow> \<not> IsExpired m now lic"
    by (simp add: IsExpired_def)
  have 4: "ExpiresAt lic = now \<longrightarrow> \<not> IsExpired m now lic"
    by (simp add: IsExpired_def)
  from 1 2 3 4 show ?thesis by blast
qed

theorem expired_iff_witness:
  "IsExpired demo_validator 10 (Data demo_tampered) \<and>
   \<not> IsExpired demo_validator 5 (Data demo_tampered) \<and>
   \<not> IsExpired demo_validator 4000000000 demo_license \<and>
   json_Marshal demo_lib (Data demo_tampered) = Inr '',acme-app,web-api'' \<and>
   publicKey demo_validator = Some demo_pub \<and>
   (\<exists>r. snd (ValidateLicense demo_lib demo_validator 10 demo_tampered) = Returns r \<and>
        ''license has expired'' \<in> set (Errors r))"
proof -
  have a: "json_Marshal demo_lib (Data demo_tampered) = Inr '',acme-app,web-api''"
    by (simp add: demo_defs demo_tampered_def)
  have b: "publicKey demo_validator = Some demo_pub"
    by (simp add: demo_defs)
  have e: "ExpiresAt (Data demo_tampered) = 5" "ExpiresAt demo_license = 0"
    by (simp_all add: demo_tampered_def demo_defs)
  show ?thesis
    using expired_iff [of demo_validator 10 "Data demo_tampered" demo_lib demo_tampered
        "'',acme-app,web-api''" demo_pub]
      expired_iff [of demo_validator 5 "Data demo_tampered"]
      expired_iff [of demo_validator 4000000000 demo_license]
      a b e
    by simp
qed

text \<open>
  C10. For a license whose \<open>ExpiresAt\<close> is strictly negative, read at a clock time that
  is not before the epoch: \<open>IsExpired\<close> is false and \<open>ValidateLicense\<close> (by a Manager with
  a public key) returns a result without the expiration error, while
  \<open>GetLicenseStatus\<close> returns \<open>expired\<close> for the same license.
\<close>

theorem negative_expiry_views_disagree:
  assumes "ExpiresAt lic <s 0" and "0 \<le>s now" and "publicKey m = Some pub"
    and "Data sl = lic"
  shows "\<not> IsExpired m now lic \<and>
         (\<exists>r. snd (ValidateLicense lib m now sl) = Returns r \<and>
              ''license has expired'' \<notin> set (Errors r)) \<and>
         GetLicenseStatus now lic = ''expired''"
proof -
  have neg: "\<not> 0 <s ExpiresAt lic"
    using assms(1) by (simp add: word_sless_alt)
  have lt: "ExpiresAt lic <s now" and nz: "ExpiresAt lic \<noteq> 0"
    using assms(1,2) by (auto simp add: word_sless_alt word_sle_eq)
  have 1: "\<not> IsExpired m now lic"
    using neg by (simp add: IsExpired_def)
  have 3: "GetLicenseStatus now lic = ''expired''"
    using lt nz by (simp add: GetLicenseStatus_def StatusExpired_def)
  have 2: "\<exists>r. snd (ValidateLicense lib m now sl) = Returns r \<and>
              ''license has expired'' \<notin> set (Errors r)"
  proof (cases "json_Marshal lib (Data sl)")
    case (Inl e)
    then show ?thesis by (simp add: ValidateLicense_marshal_error)
  next
    case (Inr data)
    obtain err where v: "verifySignature lib m data (Signature sl) = Returns err"
      using verifySignature_Returns [OF assms(3)] by blast
    show ?thesis
      using neg assms(4) by (simp add: ValidateLicense_eq [OF Inr v] validation_errors_def)
  qed
  from 1 2 3 show ?thesis by blast
qed

theorem negative_expiry_views_disagree_witness:
  "ExpiresAt (Data demo_negative) <s 0 \<and> (0::int64) \<le>s 1700000000 \<and>
   publicKey demo_validator = Some demo_pub \<and>
   \<not> IsExpired demo_validator 1700000000 (Data demo_negative) \<and>
   snd (ValidateLicense demo_lib demo_validator 1700000000 demo_negative) =
     Returns \<lparr>Valid = True, Errors = [], Warnings = []\<rparr> \<and>
   GetLicenseStatus 1700000000 (Data demo_negative) = ''expired''"
proof -
  have a: "ExpiresAt (Data demo_negative) <s 0"
    by (simp add: demo_negative_def word_sless_alt)
  have b: "(0::int64) \<le>s 1700000000"
    by (simp add: word_sle_eq)
  have c: "publicKey demo_validator = Some demo_pub"
    by (simp add: demo_defs)
  have d: "json_Marshal demo_lib (Data demo_negative) = Inr ''Acme,acme-app,web-api''"
    by (simp add: demo_defs demo_negative_def)
  have e: "verifySignature demo_lib demo_validator ''Acme,acme-app,web-api''
     (Signature demo_negative) = Returns None"
    by (simp add: verifySignature_def demo_defs demo_negative_def replicate_3)
  have f: "snd (ValidateLicense demo_lib demo_validator 1700000000 demo_negative) =
     Returns \<lparr>Valid = True, Errors = [], Warnings = []\<rparr>"
    unfolding ValidateLicense_eq [OF d e]
    by (simp add: validation_errors_def demo_negative_def demo_defs word_sless_alt)
  show ?thesis
    using negative_expiry_views_disagree [OF a b c refl, of demo_lib] a b c f
    by simp
qed

subsection \<open>Generation\<close>

lemma GenerateLicense_caller:
  "fst (GenerateLicense lib m now_issued now_created lic) =
     (if GeneratorMode (config m) \<and> Customer lic \<noteq> [] \<and> AppID lic \<noteq> []
         \<and> Services lic \<noteq> [] \<and> IssuedAt lic = 0
      then lic\<lparr>IssuedAt := now_issued\<rparr> else lic)"
  by (simp add: GenerateLicense_def Let_def split: sum.split outcome.split)

lemma GenerateLicense_success:
  assumes "GeneratorMode (config m)" and "privateKey m = Some priv"
    and "Customer lic \<noteq> []" and "AppID lic \<noteq> []" and "Services lic \<noteq> []"
    and "json_Marshal lib (if IssuedAt lic = 0 then lic\<lparr>IssuedAt := now_issued\<rparr> else lic)
           = Inr data"
    and "rsa_SignPKCS1v15 lib priv (sha256_Sum256 lib data) = Inr signature"
  shows "snd (GenerateLicense lib m now_issued now_created lic) =
           Returns (Inr \<lparr>Data = (if IssuedAt lic = 0 then lic\<lparr>IssuedAt := now_issued\<rparr> else lic),
                          Signature = base64_EncodeToString lib signature, KeyID = [],
                          Algorithm = ''RS256'', CreatedAt = now_created\<rparr>)"
  using assms by (simp add: GenerateLicense_def signData_def Let_def)

lemma demo_generate:
  "snd (GenerateLicense demo_lib demo_generator 1000 1001 demo_license) = Returns (Inr demo_signed)"
  by (simp add: GenerateLicense_def signData_def Let_def demo_defs demo_signed_def replicate_3)

text \<open>
  C3. \<open>GenerateLicense\<close> on a Manager that is not in generator mode returns the mode
  error whatever the license holds. In generator mode it returns the customer error
  when the customer is empty, else the application-ID error when the application ID is
  empty, else the services error when the service list is empty; the four errors and
  their messages are pairwise distinct. With all three fields supplied it returns a
  signed license and no error, provided the Manager holds its private key and the
  library calls \<open>json.Marshal\<close> and \<open>rsa.SignPKCS1v15\<close> return no error.
\<close>

theorem GenerateLicense_errors:
  "(\<not> GeneratorMode (config m) \<longrightarrow>
      snd (GenerateLicense lib m now_issued now_created lic)
        = Returns (Inl ErrGeneratorModeRequired)) \<and>
   (GeneratorMode (config m) \<and> Customer lic = [] \<longrightarrow>
      snd (GenerateLicense lib m now_issued now_created lic)
        = Returns (Inl ErrCustomerRequired)) \<and>
   (GeneratorMode (config m) \<and> Customer lic \<noteq> [] \<and> AppID lic = [] \<longrightarrow>
      snd (GenerateLicense lib m now_issued now_created lic)
        = Returns (Inl ErrAppIDRequired)) \<and>
   (GeneratorMode (config m) \<and> Customer lic \<noteq> [] \<and> AppID lic \<noteq> [] \<and> Services lic = [] \<longrightarrow>
      snd (GenerateLicense lib m now_issued now_created lic)
        = Returns (Inl ErrNoServicesAllowed)) \<and>
   distinct [ErrGeneratorModeRequired, ErrCustomerRequired, ErrAppIDRequired,
             ErrNoServicesAllowed] \<and>
   distinct (map Error [ErrGeneratorModeRequired, ErrCustomerRequired, ErrAppIDRequired,
             ErrNoServicesAllowed]) \<and>
   (GeneratorMode (config m) \<and> Customer lic \<noteq> [] \<and> AppID lic \<noteq> [] \<and> Services lic \<noteq> [] \<and>
    privateKey m = Some priv \<and>
    json_Marshal lib (if IssuedAt lic = 0 then lic\<lparr>IssuedAt := now_issued\<rparr> else lic)
      = Inr data \<and>
    rsa_SignPKCS1v15 lib priv (sha256_Sum256 lib data) = Inr signature \<longrightarrow>
      (\<exists>sl. snd (GenerateLicense lib m now_issued now_created lic) = Returns (Inr sl)))"
proof -
  have 1: "\<not> GeneratorMode (config m) \<longrightarrow>
      snd (GenerateLicense lib m now_issued now_created lic)
        = Returns (Inl ErrGeneratorModeRequired)"
    by (simp add: GenerateLicense_def)
  have 2: "GeneratorMode (config m) \<and> Customer lic = [] \<longrightarrow>
      snd (GenerateLicense lib m now_issued now_created lic)
        = Returns (Inl ErrCustomerRequired)"
    by (simp add: GenerateLicense_def)
  have 3: "GeneratorMode (config m) \<and> Customer lic \<noteq> [] \<and> AppID lic = [] \<longrightarrow>
      snd (GenerateLicense lib m now_issued now_created lic)
        = Returns (Inl ErrAppIDRequired)"
    by (simp add: GenerateLicense_def)
  have 4: "GeneratorMode (config m) \<and> Customer lic \<noteq> [] \<and> AppID lic \<noteq> [] \<and> Services lic = [] \<longrightarrow>
      snd (GenerateLicense lib m now_issued now_created lic)
        = Returns (Inl ErrNoServicesAllowed)"
    by (simp add: GenerateLicense_def)
  have 5: "distinct [ErrGeneratorModeRequired, ErrCustomerRequired, ErrAppIDRequired,
             ErrNoServicesAllowed]"
    by simp
  have 6: "distinct (map Error [ErrGeneratorModeRequired, ErrCustomerRequired, ErrAppIDRequired,
             ErrNoServicesAllowed])"
    by simp
  have 7: "GeneratorMode (config m) \<and> Customer lic \<noteq> [] \<and> AppID lic \<noteq> [] \<and> Services lic \<noteq> [] \<and>
    privateKey m = Some priv \<and>
    json_Marshal lib (if IssuedAt lic = 0 then lic\<lparr>IssuedAt := now_issued\<rparr> else lic)
      = Inr data \<and>
    rsa_SignPKCS1v15 lib priv (sha256_Sum256 lib data) = Inr signature \<longrightarrow>
      (\<exists>sl. snd (GenerateLicense lib m now_issued now_created lic) = Returns (Inr sl))"
    using GenerateLicense_success [of m priv lic lib now_issued data signature now_created]
    by blast
  from 1 2 3 4 5 6 7 show ?thesis by blast
qed

theorem GenerateLicense_errors_witness:
  "snd (GenerateLicense demo_lib demo_validator 1000 1001 demo_license)
     = Returns (Inl ErrGeneratorModeRequired) \<and>
   snd (GenerateLicense demo_lib demo_generator 1000 1001 (demo_license\<lparr>Customer := []\<rparr>))
     = Returns (Inl ErrCustomerRequired) \<and>
   snd (GenerateLicense demo_lib demo_generator 1000 1001 (demo_license\<lparr>AppID := []\<rparr>))
     = Returns (Inl ErrAppIDRequired) \<and>
   snd (GenerateLicense demo_lib demo_generator 1000 1001 (demo_license\<lparr>Services := []\<rparr>))
     = Returns (Inl ErrNoServicesAllowed) \<and>
   privateKey demo_generator = Some demo_priv \<and>
   json_Marshal demo_lib (demo_license\<lparr>IssuedAt := 1000\<rparr>) = Inr ''Acme,acme-app,web-api'' \<and>
   rsa_SignPKCS1v15 demo_lib demo_priv (sha256_Sum256 demo_lib ''Acme,acme-app,web-api'')
     = Inr ''Acme,acme-app,web-api###'' \<and>
   (\<exists>sl. snd (GenerateLicense demo_lib demo_generator 1000 1001 demo_license)
           = Returns (Inr sl)) \<and>
   snd (GenerateLicense demo_lib demo_generator 1000 1001 demo_license)
     = Returns (Inr demo_signed)"
proof -
  have g: "GeneratorMode (config demo_generator)" "\<not> GeneratorMode (config demo_validator)"
    by (simp_all add: demo_defs)
  have f: "Customer demo_license \<noteq> []" "AppID demo_license \<noteq> []" "Services demo_license \<noteq> []"
    "IssuedAt demo_license = 0"
    by (simp_all add: demo_defs)
  have k: "privateKey demo_generator = Some demo_priv"
    by (simp add: demo_defs)
  have d: "json_Marshal demo_lib (demo_license\<lparr>IssuedAt := 1000\<rparr>)
             = Inr ''Acme,acme-app,web-api''"
    by (simp add: demo_defs)
  have s: "rsa_SignPKCS1v15 demo_lib demo_priv (sha256_Sum256 demo_lib ''Acme,acme-app,web-api'')
     = Inr ''Acme,acme-app,web-api###''"
    by (simp add: demo_defs replicate_3)
  show ?thesis
    using GenerateLicense_errors [of demo_validator demo_lib 1000 1001 demo_license]
      GenerateLicense_errors [of demo_generator demo_lib 1000 1001 "demo_license\<lparr>Customer := []\<rparr>"]
      GenerateLicense_errors [of demo_generator demo_lib 1000 1001 "demo_license\<lparr>AppID := []\<rparr>"]
      GenerateLicense_errors [of demo_generator demo_lib 1000 1001 "demo_license\<lparr>Services := []\<rparr>"]
      GenerateLicense_errors [of demo_generator demo_lib 1000 1001 demo_license demo_priv
        "''Acme,acme-app,web-api''" "''Acme,acme-app,web-api###''"]
      g f k d s demo_generate
    by simp
qed

text \<open>
  C5 as stated fails: a license passed with \<open>IssuedAt = 0\<close> comes back from
  \<open>GenerateLicense\<close> with \<open>IssuedAt\<close> set to the clock reading, since the stamp is
  written through the caller's pointer.
\<close>

theorem GenerateLicense_stamps_caller_record:
  "IssuedAt demo_license = 0 \<and>
   fst (GenerateLicense demo_lib demo_generator 1000 1001 demo_license)
     = demo_license\<lparr>IssuedAt := 1000\<rparr> \<and>
   fst (GenerateLicense demo_lib demo_generator 1000 1001 demo_license) \<noteq> demo_license"
proof -
  have "GeneratorMode (config demo_generator) \<and> Customer demo_license \<noteq> [] \<and>
        AppID demo_license \<noteq> [] \<and> Services demo_license \<noteq> [] \<and> IssuedAt demo_license = 0"
    by (simp add: demo_defs)
  then have "fst (GenerateLicense demo_lib demo_generator 1000 1001 demo_license)
     = demo_license\<lparr>IssuedAt := 1000\<rparr>"
    by (simp add: GenerateLicense_caller)
  moreover have "IssuedAt (demo_license\<lparr>IssuedAt := 1000\<rparr>) \<noteq> IssuedAt demo_license"
    by (simp add: demo_defs)
  moreover have "IssuedAt demo_license = 0"
    by (simp add: demo_defs)
  ultimately show ?thesis by metis
qed

text \<open>
  C5, amended. After \<open>GenerateLicense\<close> the caller's License is unchanged in every
  field, except that \<open>IssuedAt\<close> holds the clock reading when it was 0 and the mode and
  required-field checks have passed (the stamp stays even when serialization or signing
  then fails). \<open>ValidateLicense\<close> leaves its SignedLicense unchanged.
\<close>

theorem frame_of_generate_and_validate:
  "fst (GenerateLicense lib m now_issued now_created lic) =
     (if GeneratorMode (config m) \<and> Customer lic \<noteq> [] \<and> AppID lic \<noteq> []
         \<and> Services lic \<noteq> [] \<and> IssuedAt lic = 0
      then lic\<lparr>IssuedAt := now_issued\<rparr> else lic) \<and>
   fst (ValidateLicense lib m now sl) = sl"
  by (simp add: GenerateLicense_caller ValidateLicense_def Let_def split: sum.split outcome.split)


theorem frame_of_generate_and_validate_witness:
  "fst (GenerateLicense demo_lib demo_generator 1000 1001 demo_license)
     = demo_license\<lparr>IssuedAt := 1000\<rparr> \<and>
   fst (GenerateLicense demo_lib demo_generator 1000 1001 demo_expired_license)
     = demo_expired_license \<and>
   fst (GenerateLicense demo_lib demo_validator 1000 1001 demo_license) = demo_license \<and>
   fst (ValidateLicense demo_lib demo_validator 10 demo_tampered) = demo_tampered"
proof -
  have a: "GeneratorMode (config demo_generator) \<and> Customer demo_license \<noteq> [] \<and>
        AppID demo_license \<noteq> [] \<and> Services demo_license \<noteq> [] \<and> IssuedAt demo_license = 0"
    by (simp add: demo_defs)
  have b: "IssuedAt demo_expired_license \<noteq> 0"
    by (simp add: demo_expired_license_def)
  have c: "\<not> GeneratorMode (config demo_validator)"
    by (simp add: demo_defs)
  show ?thesis
    using frame_of_generate_and_validate
        [of demo_lib demo_generator 1000 1001 demo_license 10 demo_tampered]
      frame_of_generate_and_validate
        [of demo_lib demo_generator 1000 1001 demo_expired_license 10 demo_tampered]
      frame_of_generate_and_validate
        [of demo_lib demo_validator 1000 1001 demo_license 10 demo_tampered]
      a b c
    by simp
qed

subsection \<open>Round trip\<close>

text \<open>
  C1 as stated fails: a license with customer, application ID and a service whose
  \<open>ExpiresAt\<close> lies in the past is generated without error, and validating the returned
  signed license with the same Manager gives an invalid result with the expiration
  error.
\<close>

theorem expired_license_generates_but_fails_validation:
  "Customer demo_expired_license \<noteq> [] \<and> AppID demo_expired_license \<noteq> [] \<and>
   Services demo_expired_license \<noteq> [] \<and> GeneratorMode (config demo_generator) \<and>
   privateKey demo_generator = Some demo_priv \<and>
   publicKey demo_generator = Some (PublicKey demo_priv) \<and>
   snd (GenerateLicense demo_lib demo_generator 10 10 demo_expired_license)
     = Returns (Inr demo_expired_signed) \<and>
   snd (ValidateLicense demo_lib demo_generator 11 demo_expired_signed)
     = Returns \<lparr>Valid = False, Errors = [''license has expired''], Warnings = []\<rparr>"
proof -
  have g: "snd (GenerateLicense demo_lib demo_generator 10 10 demo_expired_license)
     = Returns (Inr demo_expired_signed)"
    by (simp add: GenerateLicense_def signData_def Let_def demo_defs demo_expired_license_def
        demo_expired_signed_def replicate_3)
  have a: "json_Marshal demo_lib (Data demo_expired_signed) = Inr ''Acme,acme-app,web-api''"
    by (simp add: demo_defs demo_expired_signed_def demo_expired_license_def)
  have b: "verifySignature demo_lib demo_generator ''Acme,acme-app,web-api''
     (Signature demo_expired_signed) = Returns None"
    by (simp add: verifySignature_def demo_defs demo_expired_signed_def replicate_3)
  have v: "snd (ValidateLicense demo_lib demo_generator 11 demo_expired_signed)
     = Returns \<lparr>Valid = False, Errors = [''license has expired''], Warnings = []\<rparr>"
    unfolding ValidateLicense_eq [OF a b]
    by (simp add: validation_errors_def demo_expired_signed_def demo_expired_license_def
        demo_defs word_sless_alt)
  have f: "Customer demo_expired_license \<noteq> [] \<and> AppID demo_expired_license \<noteq> [] \<and>
   Services demo_expired_license \<noteq> [] \<and> GeneratorMode (config demo_generator) \<and>
   privateKey demo_generator = Some demo_priv \<and>
   publicKey demo_generator = Some (PublicKey demo_priv)"
    by (simp add: demo_defs demo_expired_license_def)
  from g v f show ?thesis by blast
qed

text \<open>
  C1, amended. For a License with non-empty customer, application ID and service list
  that is not expired at validation time (\<open>ExpiresAt\<close> is not positive, or the clock does
  not exceed it), a generator-mode Manager whose public key is the one of its private
  key generates a signed license, and validating that signed license with the same
  Manager yields \<open>Valid = true\<close> with no errors. The library is assumed to serialize and
  sign without error, to decode what it encoded as base64, and to verify with the
  public key of a pair what was signed with its private key.
\<close>

theorem generate_then_validate:
  assumes gen: "GeneratorMode (config m)"
    and keys: "privateKey m = Some priv" "publicKey m = Some (PublicKey priv)"
    and fields: "Customer lic \<noteq> []" "AppID lic \<noteq> []" "Services lic \<noteq> []"
    and marshal:
      "json_Marshal lib (if IssuedAt lic = 0 then lic\<lparr>IssuedAt := now_issued\<rparr> else lic)
         = Inr data"
    and sign: "rsa_SignPKCS1v15 lib priv (sha256_Sum256 lib data) = Inr signature"
    and base64: "\<forall>b. base64_DecodeString lib (base64_EncodeToString lib b) = Inr b"
    and rsa: "\<forall>h s. rsa_SignPKCS1v15 lib priv h = Inr s
                \<longrightarrow> rsa_VerifyPKCS1v15 lib (PublicKey priv) h s = None"
    and live: "\<not> (0 <s ExpiresAt lic \<and> ExpiresAt lic <s now)"
  shows "\<exists>sl. snd (GenerateLicense lib m now_issued now_created lic) = Returns (Inr sl) \<and>
              snd (ValidateLicense lib m now sl)
                = Returns \<lparr>Valid = True, Errors = [], Warnings = []\<rparr>"
proof -
  let ?lic = "if IssuedAt lic = 0 then lic\<lparr>IssuedAt := now_issued\<rparr> else lic"
  let ?sl = "\<lparr>Data = ?lic, Signature = base64_EncodeToString lib signature, KeyID = [],
               Algorithm = ''RS256'', CreatedAt = now_created\<rparr>"
  have g: "snd (GenerateLicense lib m now_issued now_created lic) = Returns (Inr ?sl)"
    using GenerateLicense_success [OF gen keys(1) fields marshal sign] .
  have d: "json_Marshal lib (Data ?sl) = Inr data"
    using marshal by simp
  have "rsa_VerifyPKCS1v15 lib (PublicKey priv) (sha256_Sum256 lib data) signature = None"
    using rsa sign by blast
  then have v: "verifySignature lib m data (Signature ?sl) = Returns None"
    using base64 keys(2) by (simp add: verifySignature_def)
  have "validation_errors True now ?lic = []"
    using fields live by (simp add: validation_errors_def)
  then have "snd (ValidateLicense lib m now ?sl)
                = Returns \<lparr>Valid = True, Errors = [], Warnings = []\<rparr>"
    unfolding ValidateLicense_eq [OF d v] by simp
  with g show ?thesis by blast
qed

theorem generate_then_validate_witness:
  "snd (GenerateLicense demo_lib demo_generator 1000 1001 demo_license)
     = Returns (Inr demo_signed) \<and>
   snd (ValidateLicense demo_lib demo_generator 2000 demo_signed)
     = Returns \<lparr>Valid = True, Errors = [], Warnings = []\<rparr>"
proof -
  have gen: "GeneratorMode (config demo_generator)"
    and keys: "privateKey demo_generator = Some demo_priv"
      "publicKey demo_generator = Some (PublicKey demo_priv)"
    and fields: "Customer demo_license \<noteq> []" "AppID demo_license \<noteq> []"
      "Services demo_license \<noteq> []"
    by (simp_all add: demo_defs)
  have marshal: "json_Marshal demo_lib
      (if IssuedAt demo_license = 0 then demo_license\<lparr>IssuedAt := 1000\<rparr> else demo_license)
         = Inr ''Acme,acme-app,web-api''"
    by (simp add: demo_defs)
  have sign: "rsa_SignPKCS1v15 demo_lib demo_priv (sha256_Sum256 demo_lib ''Acme,acme-app,web-api'')
     = Inr ''Acme,acme-app,web-api###''"
    by (simp add: demo_defs replicate_3)
  have base64: "\<forall>b. base64_DecodeString demo_lib (base64_EncodeToString demo_lib b) = Inr b"
    by (simp add: demo_defs)
  have rsa: "\<forall>h s. rsa_SignPKCS1v15 demo_lib demo_priv h = Inr s
                \<longrightarrow> rsa_VerifyPKCS1v15 demo_lib (PublicKey demo_priv) h s = None"
    by (simp add: demo_defs)
  have live: "\<not> (0 <s ExpiresAt demo_license \<and> ExpiresAt demo_license <s 2000)"
    by (simp add: demo_defs)
  from generate_then_validate [OF gen keys fields marshal sign base64 rsa live, of 1001]
  show ?thesis
    using demo_generate by auto
qed


subsection \<open>Key resolution\<close>

lemma NewManager_generator:
  assumes "GeneratorMode cfg"
  shows "NewManager lib fs cfg =
    (case private_key_source lib fs cfg of
       Inl err \<Rightarrow> Inl (Errorf ''failed to setup private key'' err)
     | Inr priv \<Rightarrow>
        (case public_key_override lib fs cfg of
           None \<Rightarrow>
             Inr \<lparr>privateKey = Some priv, publicKey = Some (PublicKey priv),
                  config = (if KeySize cfg = 0 then cfg\<lparr>KeySize := 2048\<rparr> else cfg)\<rparr>
         | Some (Inl err) \<Rightarrow>
             Inl (Errorf (if PublicKeyPEM cfg \<noteq> [] then ''failed to parse public key''
                          else ''failed to load public key'') err)
         | Some (Inr pub) \<Rightarrow>
             Inr \<lparr>privateKey = Some priv, publicKey = Some pub,
                  config = (if KeySize cfg = 0 then cfg\<lparr>KeySize := 2048\<rparr> else cfg)\<rparr>))"
  using assms
  by (simp add: NewManager_def private_key_source_def public_key_override_def
      DefaultKeySize_def Let_def split: sum.split)

lemma NewManager_validator:
  assumes "\<not> GeneratorMode cfg"
  shows "NewManager lib fs cfg =
    (case public_key_override lib fs cfg of
       None \<Rightarrow> Inl ErrNoPublicKey
     | Some (Inl err) \<Rightarrow>
         Inl (Errorf (if PublicKeyPEM cfg \<noteq> [] then ''failed to parse public key''
                      else ''failed to load public key'') err)
     | Some (Inr pub) \<Rightarrow>
         Inr \<lparr>privateKey = None, publicKey = Some pub,
              config = (if KeySize cfg = 0 then cfg\<lparr>KeySize := 2048\<rparr> else cfg)\<rparr>)"
  using assms
  by (simp add: NewManager_def public_key_override_def
      DefaultKeySize_def Let_def split: sum.split)

lemma NewManager_publicKey:
  "NewManager lib fs cfg = Inr m \<Longrightarrow> publicKey m \<noteq> None"
  by (cases "GeneratorMode cfg")
    (auto simp add: NewManager_generator NewManager_validator
      split: sum.splits option.splits if_splits)

lemma NewManager_privateKey:
  "NewManager lib fs cfg = Inr m \<Longrightarrow> \<not> GeneratorMode cfg \<Longrightarrow> privateKey m = None"
  by (auto simp add: NewManager_validator split: sum.splits option.splits if_splits)

text \<open>
  C6. In generator mode the private key of the Manager is the one that
  \<open>private_key_source\<close> yields (PEM text, else file path, else a fresh key of the
  configured size, 2048 when the size is 0), and a failure there fails the
  construction; the public key is the one of that private key when no separate public
  key is supplied, and the separately supplied one (PEM text, else file path) when
  there is one. Outside generator mode there is no private key, and the public key is
  the separately supplied one; with none supplied the construction fails with
  \<open>ErrNoPublicKey\<close>. Every Manager that is returned holds a public key, and its
  configuration records the key size with the default filled in.
\<close>

theorem NewManager_key_resolution:
  "(GeneratorMode cfg \<longrightarrow>
      (case private_key_source lib fs cfg of
         Inl err \<Rightarrow> NewManager lib fs cfg = Inl (Errorf ''failed to setup private key'' err)
       | Inr priv \<Rightarrow>
          (case public_key_override lib fs cfg of
             None \<Rightarrow>
               (\<exists>m. NewManager lib fs cfg = Inr m \<and> privateKey m = Some priv \<and>
                    publicKey m = Some (PublicKey priv))
           | Some (Inr pub) \<Rightarrow>
               (\<exists>m. NewManager lib fs cfg = Inr m \<and> privateKey m = Some priv \<and>
                    publicKey m = Some pub)
           | Some (Inl err) \<Rightarrow> (\<exists>e. NewManager lib fs cfg = Inl e)))) \<and>
   (\<not> GeneratorMode cfg \<longrightarrow>
      (case public_key_override lib fs cfg of
         None \<Rightarrow> NewManager lib fs cfg = Inl ErrNoPublicKey
       | Some (Inr pub) \<Rightarrow>
           (\<exists>m. NewManager lib fs cfg = Inr m \<and> privateKey m = None \<and> publicKey m = Some pub)
       | Some (Inl err) \<Rightarrow> (\<exists>e. NewManager lib fs cfg = Inl e))) \<and>
   (\<forall>m. NewManager lib fs cfg = Inr m \<longrightarrow>
      publicKey m \<noteq> None \<and>
      KeySize (config m) = (if KeySize cfg = 0 then 2048 else KeySize cfg))"
proof -
  have 1: "GeneratorMode cfg \<longrightarrow>
      (case private_key_source lib fs cfg of
         Inl err \<Rightarrow> NewManager lib fs cfg = Inl (Errorf ''failed to setup private key'' err)
       | Inr priv \<Rightarrow>
          (case public_key_override lib fs cfg of
             None \<Rightarrow>
               (\<exists>m. NewManager lib fs cfg = Inr m \<and> privateKey m = Some priv \<and>
                    publicKey m = Some (PublicKey priv))
           | Some (Inr pub) \<Rightarrow>
               (\<exists>m. NewManager lib fs cfg = Inr m \<and> privateKey m = Some priv \<and>
                    publicKey m = Some pub)
           | Some (Inl err) \<Rightarrow> (\<exists>e. NewManager lib fs cfg = Inl e)))"
    by (simp add: NewManager_generator split: sum.split option.split)
  have 2: "\<not> GeneratorMode cfg \<longrightarrow>
      (case public_key_override lib fs cfg of
         None \<Rightarrow> NewManager lib fs cfg = Inl ErrNoPublicKey
       | Some (Inr pub) \<Rightarrow>
           (\<exists>m. NewManager lib fs cfg = Inr m \<and> privateKey m = None \<and> publicKey m = Some pub)
       | Some (Inl err) \<Rightarrow> (\<exists>e. NewManager lib fs cfg = Inl e))"
    by (simp add: NewManager_validator split: sum.split option.split)
  have 3: "KeySize (config m) = (if KeySize cfg = 0 then 2048 else KeySize cfg)"
    if "NewManager lib fs cfg = Inr m" for m
    using that
    by (cases "GeneratorMode cfg")
      (auto simp add: NewManager_generator NewManager_validator
        split: sum.splits option.splits if_splits)
  from 1 2 3 NewManager_publicKey [of lib fs cfg] show ?thesis by blast
qed


theorem NewManager_key_resolution_witness:
  "NewManager demo_lib Map.empty
     (demo_config\<lparr>PrivateKeyPEM := ''-----BEGIN rsa-private'', PrivateKeyPath := ''/missing'',
        GeneratorMode := True\<rparr>) =
     Inr \<lparr>privateKey = Some demo_priv, publicKey = Some demo_pub,
       config = demo_config\<lparr>PrivateKeyPEM := ''-----BEGIN rsa-private'',
         PrivateKeyPath := ''/missing'', KeySize := 2048, GeneratorMode := True\<rparr>\<rparr> \<and>
   (\<exists>m. NewManager demo_lib Map.empty (demo_config\<lparr>GeneratorMode := True\<rparr>) = Inr m \<and>
      privateKey m = Some \<lparr>PublicKey = \<lparr>N = 2048, E = 3\<rparr>, D = 3, Primes = []\<rparr> \<and>
      publicKey m = Some \<lparr>N = 2048, E = 3\<rparr>) \<and>
   (\<exists>m. NewManager demo_lib Map.empty
      (demo_config\<lparr>PublicKeyPEM := ''-----BEGIN rsa-public-2'', GeneratorMode := True\<rparr>) = Inr m \<and>
      publicKey m = Some demo_other_pub) \<and>
   NewManager demo_lib Map.empty demo_config = Inl ErrNoPublicKey"
proof -
  let ?c1 = "demo_config\<lparr>PrivateKeyPEM := ''-----BEGIN rsa-private'',
     PrivateKeyPath := ''/missing'', GeneratorMode := True\<rparr>"
  let ?c2 = "demo_config\<lparr>GeneratorMode := True\<rparr>"
  let ?c3 = "demo_config\<lparr>PublicKeyPEM := ''-----BEGIN rsa-public-2'', GeneratorMode := True\<rparr>"
  have s1: "private_key_source demo_lib Map.empty ?c1 = Inr demo_priv"
    "public_key_override demo_lib Map.empty ?c1 = None" "GeneratorMode ?c1"
    by (simp_all add: private_key_source_def public_key_override_def parsePrivateKeyFromPEM_def
        demo_lib_def demo_config_def)
  have s2: "private_key_source demo_lib Map.empty ?c2
              = Inr \<lparr>PublicKey = \<lparr>N = 2048, E = 3\<rparr>, D = 3, Primes = []\<rparr>"
    "public_key_override demo_lib Map.empty ?c2 = None" "GeneratorMode ?c2"
    by (simp_all add: private_key_source_def public_key_override_def
        demo_lib_def demo_config_def)
  have s3: "private_key_source demo_lib Map.empty ?c3
              = Inr \<lparr>PublicKey = \<lparr>N = 2048, E = 3\<rparr>, D = 3, Primes = []\<rparr>"
    "public_key_override demo_lib Map.empty ?c3 = Some (Inr demo_other_pub)" "GeneratorMode ?c3"
    by (simp_all add: private_key_source_def public_key_override_def parsePublicKeyFromPEM_def
        demo_lib_def demo_config_def)
  have s4: "public_key_override demo_lib Map.empty demo_config = None"
    "\<not> GeneratorMode demo_config"
    by (simp_all add: public_key_override_def demo_config_def)
  have 1: "NewManager demo_lib Map.empty ?c1 =
     Inr \<lparr>privateKey = Some demo_priv, publicKey = Some demo_pub,
       config = demo_config\<lparr>PrivateKeyPEM := ''-----BEGIN rsa-private'',
         PrivateKeyPath := ''/missing'', KeySize := 2048, GeneratorMode := True\<rparr>\<rparr>"
    by (simp add: NewManager_generator s1) (simp add: demo_config_def demo_priv_def)
  show ?thesis
    using NewManager_key_resolution [of ?c2 demo_lib Map.empty]
      NewManager_key_resolution [of ?c3 demo_lib Map.empty]
      NewManager_key_resolution [of demo_config demo_lib Map.empty]
      1 s2 s3 s4
    by auto
qed

text \<open>
  C7 as stated fails: a PEM block whose bytes the x509 parser rejects is reported with
  the parser's own error, for private and for public keys, not with
  \<open>ErrInvalidPrivateKey\<close> or \<open>ErrInvalidPublicKey\<close>.
\<close>

theorem parser_passes_library_error_on:
  "pem_Decode demo_lib ''-----BEGIN ecdsa-private''
     = Some \<lparr>Type = ''KEY'', Bytes = ''ecdsa-private''\<rparr> \<and>
   parsePrivateKeyFromPEM demo_lib ''-----BEGIN ecdsa-private''
     = Inl (LibError ''x509: failed to parse private key'') \<and>
   parsePrivateKeyFromPEM demo_lib ''-----BEGIN ecdsa-private'' \<noteq> Inl ErrInvalidPrivateKey \<and>
   pem_Decode demo_lib ''-----BEGIN garbage'' = Some \<lparr>Type = ''KEY'', Bytes = ''garbage''\<rparr> \<and>
   parsePublicKeyFromPEM demo_lib ''-----BEGIN garbage''
     = Inl (LibError ''x509: failed to parse public key'') \<and>
   parsePublicKeyFromPEM demo_lib ''-----BEGIN garbage'' \<noteq> Inl ErrInvalidPublicKey"
  by (simp add: parsePrivateKeyFromPEM_def parsePublicKeyFromPEM_def demo_lib_def)

text \<open>
  C7, amended. Input in which no PEM block is found is reported as
  \<open>ErrInvalidPrivateKey\<close> by the private-key parser and as \<open>ErrInvalidPublicKey\<close> by the
  public-key parser, two distinct errors; a PEM block that parses to a public key of
  another algorithm than RSA is reported as \<open>ErrInvalidPublicKey\<close>. When the x509 parser
  rejects the bytes of the block, its error is returned unchanged by both parsers.
\<close>

theorem parse_error_kinds:
  "(pem_Decode lib pemData = None \<longrightarrow>
      parsePrivateKeyFromPEM lib pemData = Inl ErrInvalidPrivateKey \<and>
      parsePublicKeyFromPEM lib pemData = Inl ErrInvalidPublicKey) \<and>
   (pem_Decode lib pemData = Some block \<and>
    x509_ParsePKIXPublicKey lib (Bytes block) = Inr (OtherPublicKey alg) \<longrightarrow>
      parsePublicKeyFromPEM lib pemData = Inl ErrInvalidPublicKey) \<and>
   (pem_Decode lib pemData = Some block \<and>
    x509_ParsePKCS1PrivateKey lib (Bytes block) = Inl err \<longrightarrow>
      parsePrivateKeyFromPEM lib pemData = Inl err) \<and>
   (pem_Decode lib pemData = Some block \<and>
    x509_ParsePKIXPublicKey lib (Bytes block) = Inl err \<longrightarrow>
      parsePublicKeyFromPEM lib pemData = Inl err) \<and>
   ErrInvalidPrivateKey \<noteq> ErrInvalidPublicKey"
  by (simp add: parsePrivateKeyFromPEM_def parsePublicKeyFromPEM_def)

theorem parse_error_kinds_witness:
  "pem_Decode demo_lib ''no pem here'' = None \<and>
   parsePrivateKeyFromPEM demo_lib ''no pem here'' = Inl ErrInvalidPrivateKey \<and>
   parsePublicKeyFromPEM demo_lib ''no pem here'' = Inl ErrInvalidPublicKey \<and>
   pem_Decode demo_lib ''-----BEGIN ecdsa-public''
     = Some \<lparr>Type = ''KEY'', Bytes = ''ecdsa-public''\<rparr> \<and>
   x509_ParsePKIXPublicKey demo_lib ''ecdsa-public'' = Inr (OtherPublicKey ''ecdsa'') \<and>
   parsePublicKeyFromPEM demo_lib ''-----BEGIN ecdsa-public'' = Inl ErrInvalidPublicKey \<and>
   x509_ParsePKCS1PrivateKey demo_lib ''ecdsa-public''
     = Inl (LibError ''x509: failed to parse private key'') \<and>
   parsePrivateKeyFromPEM demo_lib ''-----BEGIN ecdsa-public''
     = Inl (LibError ''x509: failed to parse private key'')"
proof -
  have a: "pem_Decode demo_lib ''no pem here'' = None"
    by (simp add: demo_lib_def)
  have b: "pem_Decode demo_lib ''-----BEGIN ecdsa-public''
     = Some \<lparr>Type = ''KEY'', Bytes = ''ecdsa-public''\<rparr>"
    by (simp add: demo_lib_def)
  have c: "x509_ParsePKIXPublicKey demo_lib ''ecdsa-public'' = Inr (OtherPublicKey ''ecdsa'')"
    by (simp add: demo_lib_def)
  have d: "x509_ParsePKCS1PrivateKey demo_lib ''ecdsa-public''
     = Inl (LibError ''x509: failed to parse private key'')"
    by (simp add: demo_lib_def)
  show ?thesis
    using parse_error_kinds [of demo_lib "''no pem here''"]
      parse_error_kinds [of demo_lib "''-----BEGIN ecdsa-public''"
        "\<lparr>Type = ''KEY'', Bytes = ''ecdsa-public''\<rparr>" "''ecdsa''"
        "LibError ''x509: failed to parse private key''"]
      a b c d
    by simp
qed

subsection \<open>Key export without a private key\<close>

text \<open>
  C9. A Manager constructed outside generator mode holds no private key, and on it
  \<open>ExportPrivateKey\<close>, \<open>ExportKeys\<close> and \<open>SaveKeys\<close> panic on the nil key instead of
  returning; \<open>SaveKeys\<close> has written no file by then. On any Manager that does hold a
  private key, \<open>ExportPrivateKey\<close> returns the PEM text of that key.
\<close>

theorem validator_key_export_panics:
  assumes "NewManager lib fs cfg = Inr m" and "\<not> GeneratorMode cfg"
  shows "privateKey m = None \<and>
         ExportPrivateKey lib m = Panics NilPointerDereference \<and>
         ExportKeys lib m = Panics NilPointerDereference \<and>
         SaveKeys lib m fs' privateKeyPath publicKeyPath = (fs', Panics NilPointerDereference) \<and>
         (\<forall>priv. privateKey g = Some priv \<longrightarrow>
            ExportPrivateKey lib g =
              Returns (pem_EncodeToMemory lib
                \<lparr>Type = ''RSA PRIVATE KEY'', Bytes = x509_MarshalPKCS1PrivateKey lib priv\<rparr>))"
proof -
  have n: "privateKey m = None"
    using NewManager_privateKey [OF assms] .
  then have e: "ExportPrivateKey lib m = Panics NilPointerDereference"
    by (simp add: ExportPrivateKey_def)
  show ?thesis
    using n e by (simp add: ExportKeys_def SaveKeys_def) (simp add: ExportPrivateKey_def)
qed

theorem validator_key_export_panics_witness:
  "NewManager demo_lib Map.empty (demo_config\<lparr>PublicKeyPEM := ''-----BEGIN rsa-public''\<rparr>)
     = Inr demo_validator \<and>
   \<not> GeneratorMode (demo_config\<lparr>PublicKeyPEM := ''-----BEGIN rsa-public''\<rparr>) \<and>
   privateKey demo_validator = None \<and>
   ExportPrivateKey demo_lib demo_validator = Panics NilPointerDereference \<and>
   ExportKeys demo_lib demo_validator = Panics NilPointerDereference \<and>
   SaveKeys demo_lib demo_validator Map.empty ''private.pem'' ''public.pem''
     = (Map.empty, Panics NilPointerDereference) \<and>
   privateKey demo_generator = Some demo_priv \<and>
   ExportPrivateKey demo_lib demo_generator = Returns ''-----BEGIN rsa-private''"
proof -
  have k: "privateKey demo_generator = Some demo_priv"
    by (simp add: demo_defs)
  have p: "pem_EncodeToMemory demo_lib
             \<lparr>Type = ''RSA PRIVATE KEY'', Bytes = x509_MarshalPKCS1PrivateKey demo_lib demo_priv\<rparr>
           = ''-----BEGIN rsa-private''"
    by (simp add: demo_lib_def)
  let ?c = "demo_config\<lparr>PublicKeyPEM := ''-----BEGIN rsa-public''\<rparr>"
  have g: "\<not> GeneratorMode ?c"
    by (simp add: demo_config_def)
  have o: "public_key_override demo_lib Map.empty ?c = Some (Inr demo_pub)"
    by (simp add: public_key_override_def parsePublicKeyFromPEM_def demo_lib_def demo_config_def)
  have n: "NewManager demo_lib Map.empty ?c = Inr demo_validator"
    by (simp add: NewManager_validator [OF g] o) (simp add: demo_validator_def demo_config_def)
  show ?thesis
    using validator_key_export_panics [OF n g, of Map.empty "''private.pem''"
        "''public.pem''" demo_generator] n g k p
    by simp
qed


end
